theory Spec2Isabelle
  imports Main
begin

section \<open>The zcat pump of example/zcat/zcat.c\<close>

text \<open>
  The program reads gzip'ed bytes from descriptor 0 into \<open>src_buffer\<close>, hands them to the
  Wuffs gzip decoder, and writes what the decoder produced in \<open>dst_buffer\<close> to
  descriptor 1. The decoder, the two system calls and \<open>strerror\<close> are outside the file;
  they are parameters of the model (the record \<open>env\<close>). Bytes (\<open>uint8_t\<close>) and
  characters are both \<open>char\<close>.
\<close>

subsection \<open>Data\<close>

type_synonym byte = char

text \<open>
  \<open>wuffs_base__io_buffer\<close>: the slice \<open>data\<close> (\<open>data.len\<close> is the length of the list)
  and the fields of \<open>meta\<close> that the program touches.
\<close>

record io_buffer =
  data :: "byte list"
  meta_wi :: nat
  meta_ri :: nat
  meta_closed :: bool

text \<open>
  \<open>wuffs_base__status\<close> is a \<open>const char*\<close>: the null pointer, one of the two
  suspensions that the program compares against, or any other message of the library.
\<close>

datatype status =
    Null
  | Suspension_short_read
  | Suspension_short_write
  | Other_status string

text \<open>What \<open>read\<close> returns: \<open>n < 0\<close> with \<open>errno\<close> set, or the \<open>n\<close> bytes delivered.\<close>

datatype read_result = Read_error int | Read_bytes "byte list"

text \<open>The \<open>const char*\<close> that \<open>decode\<close> returns, by the \<open>return\<close> statement it comes from.\<close>

datatype decode_result =
    Status status
  | Strerror int
  | No_io_progress

text \<open>
  What the program is built and run with: the two buffer sizes (macros that the build
  may set), \<open>read\<close> and \<open>write\<close> on a world of type \<open>'w\<close> (given the descriptor
  and the count, or the bytes), \<open>strerror\<close>, and the Wuffs gzip decoder with a state of
  type \<open>'d\<close>: its zero-initialised state, its version check and its decode step on
  the destination and the source buffer, and the texts of its two suspensions.
\<close>

record ('w, 'd) env =
  DST_BUFFER_SIZE :: nat
  SRC_BUFFER_SIZE :: nat
  sys_read :: "'w \<Rightarrow> nat \<Rightarrow> nat \<Rightarrow> read_result \<times> 'w"
  sys_write :: "'w \<Rightarrow> nat \<Rightarrow> byte list \<Rightarrow> int \<times> 'w"
  strerror :: "int \<Rightarrow> string"
  decoder_zero :: "'d"
  wuffs_gzip__decoder__check_wuffs_version :: "'d \<Rightarrow> status \<times> 'd"
  wuffs_gzip__decoder__decode :: "'d \<Rightarrow> io_buffer \<Rightarrow> io_buffer \<Rightarrow> status \<times> 'd \<times> io_buffer \<times> io_buffer"
  short_read_text :: string
  short_write_text :: string

text \<open>The local variables of \<open>decode\<close>, and the state of the outside world.\<close>

record ('w, 'd) pump =
  dec :: "'d"
  dst :: io_buffer
  src :: io_buffer
  world :: "'w"

text \<open>
  Where control is: at the \<open>read\<close> that opens the outer loop (line 97), at the decoder
  call that opens the inner loop (line 112), or past a \<open>return\<close>.
\<close>

datatype ('w, 'd) config =
    At_read "('w, 'd) pump"
  | At_decode "('w, 'd) pump"
  | Returned decode_result "'w"

subsection \<open>Constants and small helpers\<close>

text \<open>\<open>EINTR\<close> as Linux numbers it; the three descriptors as the program names them.\<close>

definition EINTR :: int where
  "EINTR = 4"

definition stdin_fd :: nat where
  "stdin_fd = 0"

definition stdout_fd :: nat where
  "stdout_fd = 1"

definition stderr_fd :: nat where
  "stderr_fd = 2"

definition NUL :: char where
  "NUL = CHR 0x00"

definition newline :: char where
  "newline = CHR 0x0A"

text \<open>\<open>size_t\<close> subtraction (64 bits): it wraps around when the result would be negative.\<close>

definition size_t_sub :: "nat \<Rightarrow> nat \<Rightarrow> nat" where
  "size_t_sub a b = (if b \<le> a then a - b else a + 2 ^ 64 - b)"

text \<open>Storing \<open>bs\<close> into the array \<open>xs\<close> from offset \<open>off\<close> on.\<close>

definition store :: "byte list \<Rightarrow> nat \<Rightarrow> byte list \<Rightarrow> byte list" where
  "store xs off bs = take off xs @ bs @ drop (off + length bs) xs"

definition ignore_return_value :: "int \<times> 'w \<Rightarrow> 'w" where
  "ignore_return_value r = snd r"

text \<open>The bytes of a buffer that are written and not yet read.\<close>

definition pending :: "io_buffer \<Rightarrow> byte list" where
  "pending b = drop (meta_ri b) (take (meta_wi b) (data b))"

definition io_buffer_init :: "nat \<Rightarrow> io_buffer" where
  "io_buffer_init n =
     \<lparr>data = replicate n NUL, meta_wi = 0, meta_ri = 0, meta_closed = False\<rparr>"

text \<open>
  Modelled from the spec: \<open>wuffs_base__io_buffer__compact\<close> is defined in the Wuffs
  release header, which is not among the sources. Section 3 of the specification: it
  moves the pending bytes \<open>[read_pos, write_pos)\<close> down to offset 0, resets
  \<open>read_pos = 0\<close> and \<open>write_pos -= old_read_pos\<close>. The bytes behind the moved region
  stay as they are.
\<close>

definition wuffs_base__io_buffer__compact :: "io_buffer \<Rightarrow> io_buffer" where
  "wuffs_base__io_buffer__compact b =
     b\<lparr>data := pending b @ drop (length (pending b)) (data b),
       meta_wi := meta_wi b - meta_ri b,
       meta_ri := 0\<rparr>"

subsection \<open>decode\<close>

text \<open>Lines 84 to 95: the two buffers over the zero-initialised global arrays.\<close>

definition pump_init :: "('w, 'd) env \<Rightarrow> 'd \<Rightarrow> 'w \<Rightarrow> ('w, 'd) pump" where
  "pump_init E d w =
     \<lparr>dec = d,
      dst = io_buffer_init (DST_BUFFER_SIZE E),
      src = io_buffer_init (SRC_BUFFER_SIZE E),
      world = w\<rparr>"

text \<open>Lines 77 to 95: the version check, then the buffers.\<close>

definition decode_start :: "('w, 'd) env \<Rightarrow> 'w \<Rightarrow> ('w, 'd) config" where
  "decode_start E w =
     (case wuffs_gzip__decoder__check_wuffs_version E (decoder_zero E) of
        (z, d) \<Rightarrow>
          if z \<noteq> Null then Returned (Status z) w
          else At_read (pump_init E d w))"

text \<open>
  Lines 98 to 110: one \<open>read\<close> into the source buffer from its write position on. The
  count is a \<open>size_t\<close> difference; the bytes delivered are stored and the write
  position moves up by their number.
\<close>

definition refill :: "('w, 'd) env \<Rightarrow> ('w, 'd) pump \<Rightarrow> ('w, 'd) config" where
  "refill E s =
     (case sys_read E (world s) stdin_fd
             (size_t_sub (length (data (src s))) (meta_wi (src s))) of
        (Read_error errno, w) \<Rightarrow>
          if errno \<noteq> EINTR then Returned (Strerror errno) w
          else At_read (s\<lparr>world := w\<rparr>)
      | (Read_bytes bs, w) \<Rightarrow>
          (let n = length bs;
               b = (src s)\<lparr>data := store (data (src s)) (meta_wi (src s)) bs,
                           meta_wi := meta_wi (src s) + n\<rparr>;
               b' = (if n = 0 then b\<lparr>meta_closed := True\<rparr> else b)
           in At_decode (s\<lparr>src := b', world := w\<rparr>)))"

text \<open>Lines 117 to 123: the write of what the decoder produced.\<close>

definition flush :: "('w, 'd) env \<Rightarrow> ('w, 'd) pump \<Rightarrow> ('w, 'd) pump" where
  "flush E s =
     (if meta_wi (dst s) \<noteq> 0 then
        s\<lparr>world := ignore_return_value
                     (sys_write E (world s) stdout_fd (take (meta_wi (dst s)) (data (dst s)))),
          dst := wuffs_base__io_buffer__compact ((dst s)\<lparr>meta_ri := meta_wi (dst s)\<rparr>)\<rparr>
      else s)"

text \<open>Lines 134 to 137: after the inner loop.\<close>

definition reclaim :: "('w, 'd) pump \<Rightarrow> ('w, 'd) config" where
  "reclaim s =
     (let s' = s\<lparr>src := wuffs_base__io_buffer__compact (src s)\<rparr>
      in if meta_wi (src s') = length (data (src s')) then Returned No_io_progress (world s')
         else At_read s')"

text \<open>The decoder call of line 113, with the decoder and both buffers updated.\<close>

definition call_decoder :: "('w, 'd) env \<Rightarrow> ('w, 'd) pump \<Rightarrow> status \<times> ('w, 'd) pump" where
  "call_decoder E s =
     (case wuffs_gzip__decoder__decode E (dec s) (dst s) (src s) of
        (z, d, dst', src') \<Rightarrow> (z, s\<lparr>dec := d, dst := dst', src := src'\<rparr>))"

text \<open>Lines 113 to 131: one pass of the inner loop.\<close>

definition drain :: "('w, 'd) env \<Rightarrow> ('w, 'd) pump \<Rightarrow> ('w, 'd) config" where
  "drain E s =
     (case call_decoder E s of
        (z, s1) \<Rightarrow>
          (let s2 = flush E s1
           in if z = Suspension_short_read then reclaim s2
              else if z = Suspension_short_write then At_decode s2
              else Returned (Status z) (world s2)))"

text \<open>
  One pass of whichever loop control is at, and \<open>n\<close> passes in a row; once \<open>decode\<close>
  has returned, nothing changes.
\<close>

fun step :: "('w, 'd) env \<Rightarrow> ('w, 'd) config \<Rightarrow> ('w, 'd) config" where
  "step E (At_read s) = refill E s"
| "step E (At_decode s) = drain E s"
| "step E (Returned r w) = Returned r w"

fun exec :: "('w, 'd) env \<Rightarrow> nat \<Rightarrow> ('w, 'd) config \<Rightarrow> ('w, 'd) config" where
  "exec E 0 c = c"
| "exec E (Suc n) c = exec E n (step E c)"

text \<open>
  \<open>decode\<close> with fuel: \<open>None\<close> when the loops have not returned within \<open>n\<close> passes.
\<close>

definition decode :: "('w, 'd) env \<Rightarrow> nat \<Rightarrow> 'w \<Rightarrow> (decode_result \<times> 'w) option" where
  "decode E n w =
     (case exec E n (decode_start E w) of
        Returned r w' \<Rightarrow> Some (r, w')
      | _ \<Rightarrow> None)"

subsection \<open>fail and main\<close>

text \<open>
  \<open>strnlen\<close> on the characters that a pointer points to; the end of the list stands for
  the terminating NUL.
\<close>

fun strnlen :: "string \<Rightarrow> nat \<Rightarrow> nat" where
  "strnlen [] n = 0"
| "strnlen (c # cs) 0 = 0"
| "strnlen (c # cs) (Suc n) = (if c = NUL then 0 else Suc (strnlen cs n))"

definition fail :: "('w, 'd) env \<Rightarrow> 'w \<Rightarrow> string \<Rightarrow> int \<times> 'w" where
  "fail E w msg =
     (let w1 = ignore_return_value (sys_write E w stderr_fd (take (strnlen msg 4095) msg));
          w2 = ignore_return_value (sys_write E w1 stderr_fd [newline])
      in (1, w2))"

text \<open>The characters behind the pointer that \<open>decode\<close> returned; \<open>None\<close> for the null pointer.\<close>

fun c_str :: "('w, 'd) env \<Rightarrow> decode_result \<Rightarrow> string option" where
  "c_str E (Status Null) = None"
| "c_str E (Status Suspension_short_read) = Some (short_read_text E)"
| "c_str E (Status Suspension_short_write) = Some (short_write_text E)"
| "c_str E (Status (Other_status m)) = Some m"
| "c_str E (Strerror errno) = Some (strerror E errno)"
| "c_str E No_io_progress = Some ''internal error: no I/O progress possible''"

text \<open>
  \<open>main\<close>: the exit status and the world it leaves. The seccomp calls around it change
  neither.
\<close>

definition main :: "('w, 'd) env \<Rightarrow> nat \<Rightarrow> 'w \<Rightarrow> (int \<times> 'w) option" where
  "main E n w =
     (case decode E n w of
        None \<Rightarrow> None
      | Some (msg, w') \<Rightarrow>
          Some (case c_str E msg of None \<Rightarrow> (0, w') | Some m \<Rightarrow> fail E w' m))"

subsection \<open>What the collaborators promise\<close>

definition buf_inv :: "io_buffer \<Rightarrow> bool" where
  "buf_inv b \<longleftrightarrow> meta_ri b \<le> meta_wi b \<and> meta_wi b \<le> length (data b)"

text \<open>\<open>read\<close> never delivers more bytes than it was asked for.\<close>

definition read_contract :: "('w, 'd) env \<Rightarrow> bool" where
  "read_contract E \<longleftrightarrow>
     (\<forall>w fd count bs w'. sys_read E w fd count = (Read_bytes bs, w') \<longrightarrow> length bs \<le> count)"

text \<open>
  Section 6.1 of the specification: on well-formed buffers the decoder only advances
  the write position of the destination, within its capacity, and the read position of
  the source, up to its write position.
\<close>

definition decoder_contract :: "('w, 'd) env \<Rightarrow> bool" where
  "decoder_contract E \<longleftrightarrow>
     (\<forall>d b1 b2 z d' b1' b2'.
        buf_inv b1 \<and> buf_inv b2 \<and> wuffs_gzip__decoder__decode E d b1 b2 = (z, d', b1', b2') \<longrightarrow>
          length (data b1') = length (data b1) \<and> meta_ri b1' = meta_ri b1 \<and>
          meta_wi b1 \<le> meta_wi b1' \<and> meta_wi b1' \<le> length (data b1) \<and>
          length (data b2') = length (data b2) \<and> meta_wi b2' = meta_wi b2 \<and>
          meta_ri b2 \<le> meta_ri b2' \<and> meta_ri b2' \<le> meta_wi b2)"

text \<open>
  The cursor invariant of both buffers, at their fixed capacities; and the state that
  every pass of either loop starts from, where the destination buffer is empty as well.
\<close>

definition cursors_ok :: "('w, 'd) env \<Rightarrow> ('w, 'd) pump \<Rightarrow> bool" where
  "cursors_ok E s \<longleftrightarrow>
     buf_inv (dst s) \<and> buf_inv (src s) \<and>
     length (data (dst s)) = DST_BUFFER_SIZE E \<and>
     length (data (src s)) = SRC_BUFFER_SIZE E"

definition pump_inv :: "('w, 'd) env \<Rightarrow> ('w, 'd) pump \<Rightarrow> bool" where
  "pump_inv E s \<longleftrightarrow>
     buf_inv (dst s) \<and> buf_inv (src s) \<and>
     length (data (dst s)) = DST_BUFFER_SIZE E \<and>
     length (data (src s)) = SRC_BUFFER_SIZE E \<and>
     meta_ri (dst s) = 0 \<and> meta_wi (dst s) = 0"

fun config_inv :: "('w, 'd) env \<Rightarrow> ('w, 'd) config \<Rightarrow> bool" where
  "config_inv E (At_read s) = (pump_inv E s \<and> meta_ri (src s) = 0)"
| "config_inv E (At_decode s) = pump_inv E s"
| "config_inv E (Returned r w) = True"

text \<open>The state of the outside world in a configuration.\<close>

fun config_world :: "('w, 'd) config \<Rightarrow> 'w" where
  "config_world (At_read s) = world s"
| "config_world (At_decode s) = world s"
| "config_world (Returned r w) = w"

subsection \<open>A simulated world, for running the model\<close>

text \<open>
  Descriptor 0 delivers the results of a script, one per call and never more bytes than
  asked for (what is left of a chunk stays queued); past the script it is at end of file.
  Descriptors 1 and 2 keep what they have accepted.
\<close>

record sim_world =
  sim_input :: "read_result list"
  sim_stdout :: "byte list"
  sim_stderr :: "byte list"

fun sim_read :: "sim_world \<Rightarrow> nat \<Rightarrow> nat \<Rightarrow> read_result \<times> sim_world" where
  "sim_read w fd count =
     (case sim_input w of
        [] \<Rightarrow> (Read_bytes [], w)
      | Read_error e # rs \<Rightarrow> (Read_error e, w\<lparr>sim_input := rs\<rparr>)
      | Read_bytes bs # rs \<Rightarrow>
          (Read_bytes (take count bs),
           w\<lparr>sim_input := (if length bs \<le> count then rs else Read_bytes (drop count bs) # rs)\<rparr>))"

text \<open>A sink that takes at most \<open>k\<close> bytes per call and returns how many it took.\<close>

fun sim_write :: "nat \<Rightarrow> sim_world \<Rightarrow> nat \<Rightarrow> byte list \<Rightarrow> int \<times> sim_world" where
  "sim_write k w fd bs =
     (int (length (take k bs)),
      if fd = stdout_fd then w\<lparr>sim_stdout := sim_stdout w @ take k bs\<rparr>
      else if fd = stderr_fd then w\<lparr>sim_stderr := sim_stderr w @ take k bs\<rparr>
      else w)"

definition sim_strerror :: "int \<Rightarrow> string" where
  "sim_strerror e = (if e = 5 then ''Input/output error'' else ''Unknown error'')"

text \<open>
  The identity codec: it copies as many pending source bytes as the destination has
  room for; it is done when a closed source is used up.
\<close>

definition copy_decode ::
  "unit \<Rightarrow> io_buffer \<Rightarrow> io_buffer \<Rightarrow> status \<times> unit \<times> io_buffer \<times> io_buffer" where
  "copy_decode d b1 b2 =
     (let avail = meta_wi b2 - meta_ri b2;
          k = min avail (length (data b1) - meta_wi b1);
          b1' = b1\<lparr>data := store (data b1) (meta_wi b1) (take k (pending b2)),
                   meta_wi := meta_wi b1 + k\<rparr>;
          b2' = b2\<lparr>meta_ri := meta_ri b2 + k\<rparr>
      in (if k < avail then Suspension_short_write
          else if meta_closed b2 then Null
          else Suspension_short_read, d, b1', b2'))"

text \<open>A decoder that touches no buffer and answers from a script, one status per call.\<close>

fun script_decode ::
  "status list \<Rightarrow> io_buffer \<Rightarrow> io_buffer \<Rightarrow> status \<times> status list \<times> io_buffer \<times> io_buffer" where
  "script_decode [] b1 b2 = (Other_status ''called again'', [], b1, b2)"
| "script_decode (z # zs) b1 b2 = (z, zs, b1, b2)"

definition sim_env ::
  "nat \<Rightarrow> nat \<Rightarrow> nat \<Rightarrow> 'd \<Rightarrow>
   ('d \<Rightarrow> io_buffer \<Rightarrow> io_buffer \<Rightarrow> status \<times> 'd \<times> io_buffer \<times> io_buffer) \<Rightarrow>
   (sim_world, 'd) env" where
  "sim_env dst_size src_size k d0 f =
     \<lparr>DST_BUFFER_SIZE = dst_size,
      SRC_BUFFER_SIZE = src_size,
      sys_read = sim_read,
      sys_write = sim_write k,
      strerror = sim_strerror,
      decoder_zero = d0,
      wuffs_gzip__decoder__check_wuffs_version = (\<lambda>d. (Null, d)),
      wuffs_gzip__decoder__decode = f,
      short_read_text = ''short read'',
      short_write_text = ''short write''\<rparr>"

definition sim_start :: "read_result list \<Rightarrow> sim_world" where
  "sim_start rs = \<lparr>sim_input = rs, sim_stdout = [], sim_stderr = []\<rparr>"

text \<open>
  Two small set-ups, both with buffers of four bytes: the identity codec in front of a
  sink that takes up to \<open>k\<close> bytes per call, and a scripted decoder in front of a sink
  that takes up to 4095.
\<close>

definition cat_env :: "nat \<Rightarrow> (sim_world, unit) env" where
  "cat_env k = sim_env 4 4 k () copy_decode"

definition script_env :: "status list \<Rightarrow> (sim_world, status list) env" where
  "script_env zs = sim_env 4 4 4095 zs script_decode"

section \<open>Properties\<close>

subsection \<open>Helper lemmas\<close>

lemma src_flush [simp]: "src (flush E s) = src s"
  by (simp add: flush_def)

lemma exec_Suc_right: "exec E (Suc n) c = step E (exec E n c)"
  by (induction n arbitrary: c) simp_all

lemma exec_add: "exec E (m + n) c = exec E n (exec E m c)"
  by (induction m arbitrary: c) simp_all

lemma exec_Returned [simp]: "exec E n (Returned r w) = Returned r w"
  by (induction n) simp_all

text \<open>More fuel never changes what \<open>decode\<close> has returned.\<close>

lemma decode_more_fuel: "decode E n w = Some x \<Longrightarrow> decode E (n + k) w = Some x"
  by (auto simp: decode_def exec_add split: config.splits)

lemma strnlen_le: "strnlen msg n \<le> n"
  by (induction msg n rule: strnlen.induct) auto

lemma take_strnlen: "take (strnlen msg n) msg = take n (takeWhile (\<lambda>c. c \<noteq> NUL) msg)"
  by (induction msg n rule: strnlen.induct) auto

lemma compact_facts:
  assumes "buf_inv b"
  shows "buf_inv (wuffs_base__io_buffer__compact b)"
    and "meta_ri (wuffs_base__io_buffer__compact b) = 0"
    and "meta_wi (wuffs_base__io_buffer__compact b) + meta_ri b = meta_wi b"
    and "length (data (wuffs_base__io_buffer__compact b)) = length (data b)"
    and "pending (wuffs_base__io_buffer__compact b) = pending b"
    and "meta_closed (wuffs_base__io_buffer__compact b) = meta_closed b"
  using assms by (auto simp: buf_inv_def wuffs_base__io_buffer__compact_def pending_def)

text \<open>
  When a well-formed buffer is full after compaction, it was full before and nothing of
  it had been read.
\<close>

lemma compact_full:
  assumes "buf_inv b"
    and "meta_wi (wuffs_base__io_buffer__compact b) = length (data (wuffs_base__io_buffer__compact b))"
  shows "meta_ri b = 0 \<and> meta_wi b = length (data b)"
  using assms by (auto simp: buf_inv_def wuffs_base__io_buffer__compact_def pending_def)

lemma read_contractD:
  "read_contract E \<Longrightarrow> sys_read E w fd count = (Read_bytes bs, w') \<Longrightarrow> length bs \<le> count"
  unfolding read_contract_def by blast

lemma decoder_contractD:
  assumes "decoder_contract E" "buf_inv b1" "buf_inv b2"
    and "wuffs_gzip__decoder__decode E d b1 b2 = (z, d', b1', b2')"
  shows "length (data b1') = length (data b1)" "meta_ri b1' = meta_ri b1"
    "meta_wi b1 \<le> meta_wi b1'" "meta_wi b1' \<le> length (data b1)"
    "length (data b2') = length (data b2)" "meta_wi b2' = meta_wi b2"
    "meta_ri b2 \<le> meta_ri b2'" "meta_ri b2' \<le> meta_wi b2"
  using assms unfolding decoder_contract_def by blast+

subsection \<open>The invariant of the two loops\<close>

lemma inv_start: "config_inv E (decode_start E w)"
  by (simp add: decode_start_def pump_init_def pump_inv_def buf_inv_def io_buffer_init_def
      split: prod.splits)

lemma refill_src:
  assumes rc: "read_contract E" and b: "buf_inv (src s)"
    and r: "refill E s = At_decode s'"
  shows "buf_inv (src s') \<and> length (data (src s')) = length (data (src s)) \<and>
         meta_ri (src s') = meta_ri (src s) \<and> meta_wi (src s) \<le> meta_wi (src s') \<and>
         dst s' = dst s"
proof -
  obtain x w where rd: "sys_read E (world s) stdin_fd
      (size_t_sub (length (data (src s))) (meta_wi (src s))) = (x, w)"
    by (cases "sys_read E (world s) stdin_fd
      (size_t_sub (length (data (src s))) (meta_wi (src s)))")
  from r rd obtain bs where x: "x = Read_bytes bs"
    by (cases x) (auto simp: refill_def split: if_splits)
  from b have le: "meta_wi (src s) \<le> length (data (src s))"
    by (simp add: buf_inv_def)
  then have "size_t_sub (length (data (src s))) (meta_wi (src s))
      = length (data (src s)) - meta_wi (src s)"
    by (simp add: size_t_sub_def)
  with read_contractD [OF rc rd [unfolded x]] le
  have n: "meta_wi (src s) + length bs \<le> length (data (src s))"
    by simp
  from r rd x have s': "s' = s\<lparr>src := (if length bs = 0
      then (src s)\<lparr>data := store (data (src s)) (meta_wi (src s)) bs,
                   meta_wi := meta_wi (src s) + length bs, meta_closed := True\<rparr>
      else (src s)\<lparr>data := store (data (src s)) (meta_wi (src s)) bs,
                   meta_wi := meta_wi (src s) + length bs\<rparr>), world := w\<rparr>"
    by (simp add: refill_def Let_def)
  from b n show ?thesis
    by (simp add: s' buf_inv_def store_def)
qed

lemma refill_At_read:
  "refill E s = At_read s' \<Longrightarrow> src s' = src s \<and> dst s' = dst s \<and> dec s' = dec s"
  by (auto simp: refill_def Let_def split: prod.splits read_result.splits if_splits)

lemma inv_refill:
  assumes rc: "read_contract E" and inv: "config_inv E (At_read s)"
  shows "config_inv E (refill E s)"
proof (cases "refill E s")
  case (At_read s')
  with refill_At_read [OF At_read] inv show ?thesis
    by (simp add: pump_inv_def)
next
  case (At_decode s')
  from inv have "buf_inv (src s)" by (simp add: pump_inv_def)
  from refill_src [OF rc this At_decode] inv At_decode show ?thesis
    by (simp add: pump_inv_def)
next
  case (Returned r w)
  then show ?thesis by simp
qed

lemma call_decoder_inv:
  assumes dc: "decoder_contract E" and b1: "buf_inv (dst s)" and b2: "buf_inv (src s)"
    and c: "call_decoder E s = (z, s1)"
  shows "buf_inv (dst s1) \<and> buf_inv (src s1) \<and>
         length (data (dst s1)) = length (data (dst s)) \<and>
         length (data (src s1)) = length (data (src s)) \<and>
         meta_ri (dst s1) = meta_ri (dst s) \<and> meta_wi (src s1) = meta_wi (src s)"
proof -
  obtain d' b1' b2' where dd: "wuffs_gzip__decoder__decode E (dec s) (dst s) (src s) = (z, d', b1', b2')"
    and s1: "s1 = s\<lparr>dec := d', dst := b1', src := b2'\<rparr>"
    using c by (auto simp: call_decoder_def split: prod.splits)
  from decoder_contractD [OF dc b1 b2 dd] b1 b2 show ?thesis
    by (simp add: s1 buf_inv_def)
qed

lemma flush_inv:
  assumes "buf_inv (dst s)"
  shows "buf_inv (dst (flush E s)) \<and> meta_wi (dst (flush E s)) = 0 \<and>
         (meta_ri (dst s) = 0 \<longrightarrow> meta_ri (dst (flush E s)) = 0) \<and>
         length (data (dst (flush E s))) = length (data (dst s))"
  using assms
  by (auto simp: flush_def buf_inv_def wuffs_base__io_buffer__compact_def pending_def)

lemma inv_drain:
  assumes dc: "decoder_contract E" and inv: "pump_inv E s"
  shows "config_inv E (drain E s)"
proof -
  obtain z s1 where c: "call_decoder E s = (z, s1)"
    by (cases "call_decoder E s")
  from inv have b: "buf_inv (dst s)" "buf_inv (src s)"
    by (simp_all add: pump_inv_def)
  note d = call_decoder_inv [OF dc b c]
  from d have "buf_inv (dst s1)" by simp
  note f = flush_inv [OF this, of E]
  from d f inv have p: "pump_inv E (flush E s1)"
    by (simp add: pump_inv_def)
  from d have "buf_inv (src s1)" by simp
  note k = compact_facts [OF this]
  from p k have "config_inv E (reclaim (flush E s1))"
    by (simp add: reclaim_def Let_def pump_inv_def)
  with p c show ?thesis
    by (simp add: drain_def Let_def)
qed

lemma inv_step:
  "read_contract E \<Longrightarrow> decoder_contract E \<Longrightarrow> config_inv E c \<Longrightarrow> config_inv E (step E c)"
  by (cases c) (simp_all add: inv_refill inv_drain)

lemma inv_exec:
  "read_contract E \<Longrightarrow> decoder_contract E \<Longrightarrow> config_inv E c \<Longrightarrow> config_inv E (exec E n c)"
  by (induction n arbitrary: c) (simp_all add: inv_step)

lemma inv_reachable:
  "read_contract E \<Longrightarrow> decoder_contract E \<Longrightarrow> config_inv E (exec E n (decode_start E w))"
  by (rule inv_exec [OF _ _ inv_start])

lemma cursors_ok_init: "cursors_ok E (pump_init E d w)"
  by (simp add: cursors_ok_def pump_init_def buf_inv_def io_buffer_init_def)

lemma pump_inv_cursors_ok: "pump_inv E s \<Longrightarrow> cursors_ok E s"
  by (simp add: pump_inv_def cursors_ok_def)

subsection \<open>The simulated world keeps the promises\<close>

lemma sim_read_contract: "read_contract (sim_env a b k d f)"
  by (auto simp: read_contract_def sim_env_def split: list.splits read_result.splits)

lemma cat_env_contracts: "read_contract (cat_env k)" "decoder_contract (cat_env k)"
  unfolding cat_env_def
  by (rule sim_read_contract)
    (auto simp: decoder_contract_def sim_env_def copy_decode_def Let_def buf_inv_def
      store_def pending_def)

lemma script_env_contracts: "read_contract (script_env zs)" "decoder_contract (script_env zs)"
proof -
  show "read_contract (script_env zs)"
    unfolding script_env_def by (rule sim_read_contract)
  have "script_decode d b1 b2 = (z, d', b1', b2') \<Longrightarrow> b1' = b1 \<and> b2' = b2"
    for d b1 b2 z d' b1' b2'
    by (cases d) auto
  then show "decoder_contract (script_env zs)"
    by (fastforce simp: decoder_contract_def script_env_def sim_env_def buf_inv_def)
qed

text \<open>\<open>decode\<close> writes to descriptor 1 only: the simulated descriptor 2 receives nothing.\<close>

lemma sim_step_stderr:
  "sim_stderr (config_world (step (sim_env a b k d f) c)) = sim_stderr (config_world c)"
proof (cases c)
  case (At_read s)
  then show ?thesis
    by (auto simp: refill_def Let_def sim_env_def
        split: list.splits read_result.splits)
next
  case (At_decode s)
  then show ?thesis
    by (auto simp: drain_def call_decoder_def flush_def reclaim_def Let_def sim_env_def
        ignore_return_value_def stdout_fd_def stderr_fd_def split: prod.splits)
next
  case (Returned r w)
  then show ?thesis by simp
qed

lemma sim_exec_stderr:
  "sim_stderr (config_world (exec (sim_env a b k d f) n c)) = sim_stderr (config_world c)"
  by (induction n arbitrary: c) (simp_all add: sim_step_stderr)

lemma sim_decode_stderr:
  assumes "decode (sim_env a b k d f) n v = Some (r, v')"
  shows "sim_stderr v' = sim_stderr v"
proof -
  have "config_world (decode_start (sim_env a b k d f) v) = v"
    by (simp add: decode_start_def pump_init_def split: prod.splits)
  with sim_exec_stderr [of a b k d f n "decode_start (sim_env a b k d f) v"] assms
  show ?thesis
    by (auto simp: decode_def split: config.splits)
qed

subsection \<open>The claims\<close>

text \<open>
  C1. In every pass of the inner loop the pending bytes of the destination buffer are
  written to the sink in full, partial writes being retried, so that a sink that accepts
  one byte per call still receives the complete output. The program does not do this:
  line 120 calls \<open>write\<close> once and discards what it returns (the comment above it says
  that write errors are yet to be handled), and line 121 marks everything as written.
  With the identity codec, the input \<open>hi\<close> and a sink that takes one byte per call,
  \<open>decode\<close> returns the null status and the sink has received \<open>h\<close>; a sink that takes
  two bytes per call receives \<open>hi\<close>.
\<close>

theorem one_byte_sink_loses_output:
  "decode (cat_env 1) 4 (sim_start [Read_bytes ''hi'']) =
     Some (Status Null, \<lparr>sim_input = [], sim_stdout = ''h'', sim_stderr = []\<rparr>)
   \<and> decode (cat_env 2) 4 (sim_start [Read_bytes ''hi'']) =
     Some (Status Null, \<lparr>sim_input = [], sim_stdout = ''hi'', sim_stderr = []\<rparr>)"
  by code_simp

text \<open>
  C2. A step of the program returns the no-progress error exactly when it is a pass of
  the inner loop in which the decoder reports a short read and, after the source buffer
  is compacted, its write position equals its capacity (or when that error has been
  returned already). The program then has returned: it does not loop.
\<close>

theorem no_progress_exit:
  "(step E c = Returned No_io_progress w) =
     (c = Returned No_io_progress w \<or>
      (\<exists>s. c = At_decode s \<and>
           fst (call_decoder E s) = Suspension_short_read \<and>
           meta_wi (wuffs_base__io_buffer__compact (src (snd (call_decoder E s)))) =
             length (data (wuffs_base__io_buffer__compact (src (snd (call_decoder E s))))) \<and>
           w = world (flush E (snd (call_decoder E s)))))"
proof (cases c)
  case (At_read s)
  then show ?thesis
    by (auto simp: refill_def Let_def split: prod.splits read_result.splits)
next
  case (At_decode s)
  then show ?thesis
    by (auto simp: drain_def reclaim_def Let_def split: prod.splits)
next
  case (Returned r v)
  then show ?thesis by auto
qed

theorem no_progress_exit_witness:
  "step (script_env [])
     (At_decode \<lparr>dec = [Suspension_short_read], dst = io_buffer_init 4,
                 src = \<lparr>data = ''abcd'', meta_wi = 4, meta_ri = 0, meta_closed = False\<rparr>,
                 world = sim_start [Read_bytes ''ef'']\<rparr>) =
   Returned No_io_progress (sim_start [Read_bytes ''ef''])"
proof -
  let ?s = "\<lparr>dec = [Suspension_short_read], dst = io_buffer_init 4,
             src = \<lparr>data = ''abcd'', meta_wi = 4, meta_ri = 0, meta_closed = False\<rparr>,
             world = sim_start [Read_bytes ''ef'']\<rparr>"
  have "fst (call_decoder (script_env []) ?s) = Suspension_short_read \<and>
        meta_wi (wuffs_base__io_buffer__compact (src (snd (call_decoder (script_env []) ?s)))) =
          length (data (wuffs_base__io_buffer__compact (src (snd (call_decoder (script_env []) ?s))))) \<and>
        sim_start [Read_bytes ''ef''] =
          world (flush (script_env []) (snd (call_decoder (script_env []) ?s)))"
    by code_simp
  with no_progress_exit [of "script_env []" "At_decode ?s" "sim_start [Read_bytes ''ef'']"]
  show ?thesis by blast
qed

text \<open>
  C3, as amended. \<open>decode\<close> leaves its loops only in three ways: a \<open>read\<close> fails with
  an \<open>errno\<close> other than \<open>EINTR\<close>, and the result is \<open>strerror\<close> of it; the decoder
  returns a status that is neither the short-read nor the short-write suspension (the
  null status of a finished stream included), and the result is that status; or the
  source buffer is full after compaction, and the result is the no-progress error. The
  \<open>closed\<close> flag is not looked at: when the decoder reports a short read and the
  compacted source buffer is not full, the program goes back to \<open>read\<close>, with the flag
  as it was.
\<close>

theorem pump_exits:
  "(refill E s = Returned r w \<longrightarrow>
      (\<exists>e. e \<noteq> EINTR \<and> r = Strerror e \<and>
           sys_read E (world s) stdin_fd
             (size_t_sub (length (data (src s))) (meta_wi (src s))) = (Read_error e, w)))
 \<and> (drain E s = Returned r w \<longrightarrow>
      (fst (call_decoder E s) \<noteq> Suspension_short_read \<and>
       fst (call_decoder E s) \<noteq> Suspension_short_write \<and>
       r = Status (fst (call_decoder E s)))
      \<or> (fst (call_decoder E s) = Suspension_short_read \<and> r = No_io_progress \<and>
          meta_wi (wuffs_base__io_buffer__compact (src (snd (call_decoder E s)))) =
            length (data (wuffs_base__io_buffer__compact (src (snd (call_decoder E s)))))))
 \<and> (fst (call_decoder E s) = Suspension_short_read \<and>
    meta_wi (wuffs_base__io_buffer__compact (src (snd (call_decoder E s)))) \<noteq>
      length (data (wuffs_base__io_buffer__compact (src (snd (call_decoder E s)))))
    \<longrightarrow> (\<exists>s'. drain E s = At_read s' \<and>
              meta_closed (src s') = meta_closed (src (snd (call_decoder E s)))))"
  by (auto simp: refill_def drain_def reclaim_def Let_def wuffs_base__io_buffer__compact_def
      split: prod.splits read_result.splits if_splits)

theorem pump_exits_witness:
  "refill (script_env []) (pump_init (script_env []) [] (sim_start [Read_error 5])) =
     Returned (Strerror 5) (sim_start [])
   \<and> 5 \<noteq> EINTR
   \<and> drain (script_env []) (pump_init (script_env []) [Null] (sim_start [])) =
       Returned (Status Null) (sim_start [])
   \<and> (\<exists>s'. drain (script_env [])
              \<lparr>dec = [Suspension_short_read], dst = io_buffer_init 4,
               src = (io_buffer_init 4)\<lparr>meta_closed := True\<rparr>,
               world = sim_start [Read_error 5]\<rparr> = At_read s' \<and>
            meta_closed (src s'))"
proof -
  let ?E = "script_env []"
  let ?s1 = "pump_init ?E [] (sim_start [Read_error 5])"
  let ?s2 = "pump_init ?E [Null] (sim_start [])"
  let ?s3 = "\<lparr>dec = [Suspension_short_read], dst = io_buffer_init 4,
              src = (io_buffer_init 4)\<lparr>meta_closed := True\<rparr>,
              world = sim_start [Read_error 5]\<rparr>"
  have h1: "refill ?E ?s1 = Returned (Strerror 5) (sim_start [])"
    by code_simp
  with pump_exits [of ?E ?s1 "Strerror 5" "sim_start []"]
  have c1: "5 \<noteq> EINTR" by blast
  have h2: "drain ?E ?s2 = Returned (Status Null) (sim_start [])"
    by code_simp
  with pump_exits [of ?E ?s2 "Status Null" "sim_start []"]
  have c2: "fst (call_decoder ?E ?s2) \<noteq> Suspension_short_write" by blast
  have h3: "fst (call_decoder ?E ?s3) = Suspension_short_read \<and>
      meta_wi (wuffs_base__io_buffer__compact (src (snd (call_decoder ?E ?s3)))) \<noteq>
        length (data (wuffs_base__io_buffer__compact (src (snd (call_decoder ?E ?s3))))) \<and>
      meta_closed (src (snd (call_decoder ?E ?s3)))"
    by code_simp
  with pump_exits [of ?E ?s3]
  have c3: "\<exists>s'. drain ?E ?s3 = At_read s' \<and> meta_closed (src s')" by blast
  from h1 c1 h2 c3 show ?thesis by blast
qed

text \<open>
  C3 as stated fails. The first \<open>read\<close> returns 0, which sets \<open>closed\<close>; the decoder
  reports a short read, with no pending source byte. The program is back at \<open>read\<close>
  after these two steps, and the error of that second \<open>read\<close> is what \<open>decode\<close>
  returns.
\<close>

theorem read_after_close_counterexample:
  "exec (script_env [Suspension_short_read]) 2
     (decode_start (script_env [Suspension_short_read])
        (sim_start [Read_bytes [], Read_error 5])) =
     At_read \<lparr>dec = [], dst = io_buffer_init 4,
              src = (io_buffer_init 4)\<lparr>meta_closed := True\<rparr>,
              world = sim_start [Read_error 5]\<rparr>
   \<and> decode (script_env [Suspension_short_read]) 3
       (sim_start [Read_bytes [], Read_error 5]) = Some (Strerror 5, sim_start [])"
  by code_simp

text \<open>
  C4. What one pass of lines 98 to 110 does, by what \<open>read\<close> returns. On \<open>EINTR\<close>
  the program is back at \<open>read\<close> with its buffers and decoder untouched. On any other
  error \<open>decode\<close> returns \<open>strerror\<close> of it. On \<open>n > 0\<close> bytes the write position of
  the source buffer has advanced by \<open>n\<close> and \<open>closed\<close> is as before. On 0 bytes
  \<open>closed\<close> is set, the positions are unchanged, and the program goes on to the
  decoder.
\<close>

theorem refill_by_read_result:
  "(sys_read E (world s) stdin_fd (size_t_sub (length (data (src s))) (meta_wi (src s)))
      = (Read_error EINTR, w)
    \<longrightarrow> refill E s = At_read (s\<lparr>world := w\<rparr>))
 \<and> (sys_read E (world s) stdin_fd (size_t_sub (length (data (src s))) (meta_wi (src s)))
      = (Read_error e, w) \<and> e \<noteq> EINTR
    \<longrightarrow> refill E s = Returned (Strerror e) w)
 \<and> (sys_read E (world s) stdin_fd (size_t_sub (length (data (src s))) (meta_wi (src s)))
      = (Read_bytes bs, w) \<and> bs \<noteq> []
    \<longrightarrow> (\<exists>s'. refill E s = At_decode s' \<and>
              meta_wi (src s') = meta_wi (src s) + length bs \<and>
              meta_ri (src s') = meta_ri (src s) \<and>
              meta_closed (src s') = meta_closed (src s) \<and>
              dst s' = dst s \<and> dec s' = dec s \<and> world s' = w))
 \<and> (sys_read E (world s) stdin_fd (size_t_sub (length (data (src s))) (meta_wi (src s)))
      = (Read_bytes [], w)
    \<longrightarrow> (\<exists>s'. refill E s = At_decode s' \<and>
              meta_closed (src s') \<and>
              meta_wi (src s') = meta_wi (src s) \<and>
              meta_ri (src s') = meta_ri (src s) \<and>
              data (src s') = data (src s) \<and>
              dst s' = dst s \<and> dec s' = dec s \<and> world s' = w))"
  by (simp add: refill_def Let_def store_def)

theorem refill_by_read_result_witness:
  "refill (cat_env 8) (pump_init (cat_env 8) () (sim_start [Read_error 4, Read_bytes ''hi''])) =
     At_read (pump_init (cat_env 8) () (sim_start [Read_bytes ''hi'']))
   \<and> refill (cat_env 8) (pump_init (cat_env 8) () (sim_start [Read_error 5])) =
     Returned (Strerror 5) (sim_start [])
   \<and> (\<exists>s'. refill (cat_env 8) (pump_init (cat_env 8) () (sim_start [Read_bytes ''hi''])) =
             At_decode s' \<and> meta_wi (src s') = 2 \<and> \<not> meta_closed (src s'))
   \<and> (\<exists>s'. refill (cat_env 8) (pump_init (cat_env 8) () (sim_start [])) =
             At_decode s' \<and> meta_wi (src s') = 0 \<and> meta_closed (src s'))"
proof -
  let ?E = "cat_env 8"
  let ?s1 = "pump_init ?E () (sim_start [Read_error 4, Read_bytes ''hi''])"
  let ?s2 = "pump_init ?E () (sim_start [Read_error 5])"
  let ?s3 = "pump_init ?E () (sim_start [Read_bytes ''hi''])"
  let ?s4 = "pump_init ?E () (sim_start [])"
  have h1: "sys_read ?E (world ?s1) stdin_fd
      (size_t_sub (length (data (src ?s1))) (meta_wi (src ?s1))) =
      (Read_error EINTR, sim_start [Read_bytes ''hi''])"
    by code_simp
  have e1: "?s1\<lparr>world := sim_start [Read_bytes ''hi'']\<rparr> =
      pump_init ?E () (sim_start [Read_bytes ''hi''])"
    by code_simp
  from h1 refill_by_read_result [where E = ?E and s = ?s1 and w = "sim_start [Read_bytes ''hi'']"] e1
  have c1: "refill ?E ?s1 = At_read (pump_init ?E () (sim_start [Read_bytes ''hi'']))"
    by simp
  have h2: "sys_read ?E (world ?s2) stdin_fd
      (size_t_sub (length (data (src ?s2))) (meta_wi (src ?s2))) =
      (Read_error 5, sim_start []) \<and> 5 \<noteq> EINTR"
    by code_simp
  with refill_by_read_result [where E = ?E and s = ?s2 and w = "sim_start []" and e = 5]
  have c2: "refill ?E ?s2 = Returned (Strerror 5) (sim_start [])"
    by blast
  have h3: "sys_read ?E (world ?s3) stdin_fd
      (size_t_sub (length (data (src ?s3))) (meta_wi (src ?s3))) =
      (Read_bytes ''hi'', sim_start []) \<and> ''hi'' \<noteq> [] \<and>
      meta_wi (src ?s3) + length ''hi'' = 2 \<and> \<not> meta_closed (src ?s3)"
    by code_simp
  with refill_by_read_result [where E = ?E and s = ?s3 and w = "sim_start []" and bs = "''hi''"]
  have c3: "\<exists>s'. refill ?E ?s3 = At_decode s' \<and> meta_wi (src s') = 2 \<and>
      \<not> meta_closed (src s')"
    by metis
  have h4: "sys_read ?E (world ?s4) stdin_fd
      (size_t_sub (length (data (src ?s4))) (meta_wi (src ?s4))) =
      (Read_bytes [], sim_start []) \<and> meta_wi (src ?s4) = 0"
    by code_simp
  with refill_by_read_result [where E = ?E and s = ?s4 and w = "sim_start []"]
  have c4: "\<exists>s'. refill ?E ?s4 = At_decode s' \<and> meta_wi (src s') = 0 \<and>
      meta_closed (src s')"
    by metis
  from c1 c2 c3 c4 show ?thesis by blast
qed

text \<open>
  C5, as amended. The inner loop dispatches on the status of the decoder call: on the
  short-read suspension it is left for the compaction of the source buffer; on the
  short-write suspension it runs again; on every other status, the null status
  included, \<open>decode\<close> returns that status unchanged. No status other than short write
  makes the inner loop run again.
\<close>

theorem drain_dispatch:
  "(fst (call_decoder E s) = Suspension_short_read \<longrightarrow>
      drain E s = reclaim (flush E (snd (call_decoder E s))) \<and>
      (\<forall>s'. drain E s \<noteq> At_decode s'))
 \<and> (fst (call_decoder E s) = Suspension_short_write \<longrightarrow>
      drain E s = At_decode (flush E (snd (call_decoder E s))))
 \<and> (fst (call_decoder E s) \<noteq> Suspension_short_read \<and>
    fst (call_decoder E s) \<noteq> Suspension_short_write \<longrightarrow>
      drain E s = Returned (Status (fst (call_decoder E s)))
                    (world (flush E (snd (call_decoder E s)))))"
  by (auto simp: drain_def reclaim_def Let_def split: prod.splits)

theorem drain_dispatch_witness:
  "drain (script_env []) (pump_init (script_env []) [Suspension_short_read] (sim_start [])) =
     At_read (pump_init (script_env []) [] (sim_start []))
   \<and> drain (script_env []) (pump_init (script_env []) [Suspension_short_write] (sim_start [])) =
     At_decode (pump_init (script_env []) [] (sim_start []))
   \<and> drain (script_env []) (pump_init (script_env []) [Other_status ''bad header''] (sim_start [])) =
     Returned (Status (Other_status ''bad header'')) (sim_start [])"
proof -
  let ?E = "script_env []"
  let ?s1 = "pump_init ?E [Suspension_short_read] (sim_start [])"
  let ?s2 = "pump_init ?E [Suspension_short_write] (sim_start [])"
  let ?s3 = "pump_init ?E [Other_status ''bad header''] (sim_start [])"
  have h1: "fst (call_decoder ?E ?s1) = Suspension_short_read \<and>
      reclaim (flush ?E (snd (call_decoder ?E ?s1))) = At_read (pump_init ?E [] (sim_start []))"
    by code_simp
  with drain_dispatch [of ?E ?s1]
  have c1: "drain ?E ?s1 = At_read (pump_init ?E [] (sim_start []))" by simp
  have h2: "fst (call_decoder ?E ?s2) = Suspension_short_write \<and>
      flush ?E (snd (call_decoder ?E ?s2)) = pump_init ?E [] (sim_start [])"
    by code_simp
  with drain_dispatch [of ?E ?s2]
  have c2: "drain ?E ?s2 = At_decode (pump_init ?E [] (sim_start []))" by simp
  have h3: "fst (call_decoder ?E ?s3) \<noteq> Suspension_short_read \<and>
      fst (call_decoder ?E ?s3) \<noteq> Suspension_short_write \<and>
      fst (call_decoder ?E ?s3) = Other_status ''bad header'' \<and>
      world (flush ?E (snd (call_decoder ?E ?s3))) = sim_start []"
    by code_simp
  with drain_dispatch [of ?E ?s3]
  have c3: "drain ?E ?s3 = Returned (Status (Other_status ''bad header'')) (sim_start [])"
    by simp
  from c1 c2 c3 show ?thesis by blast
qed

text \<open>
  C5 as stated fails. A decoder call that returns the null status (neither suspended
  nor failed) ends \<open>decode\<close> with that status, after that one call; a call that returns
  the short-write suspension is followed by a second call, whose status is the result.
\<close>

theorem null_status_counterexample:
  "decode (script_env [Null]) 3 (sim_start [Read_bytes ''x'']) =
     Some (Status Null, sim_start [])
   \<and> decode (script_env [Suspension_short_write]) 3 (sim_start [Read_bytes ''x'']) =
     Some (Status (Other_status ''called again''), sim_start [])"
  by code_simp

text \<open>
  C6. With a \<open>read\<close> and a decoder that keep their promises, the destination buffer
  is empty at every decoder call: both positions are 0 and the whole capacity is free.
  It is so again after the write that follows the call, where the program sets the read
  position to the write position and compacts.
\<close>

theorem decoder_sees_empty_dst:
  assumes "read_contract E" and "decoder_contract E"
    and "exec E n (decode_start E w) = At_decode s"
  shows "meta_ri (dst s) = 0 \<and> meta_wi (dst s) = 0 \<and>
         length (data (dst s)) = DST_BUFFER_SIZE E \<and>
         meta_ri (dst (flush E (snd (call_decoder E s)))) = 0 \<and>
         meta_wi (dst (flush E (snd (call_decoder E s)))) = 0 \<and>
         length (data (dst (flush E (snd (call_decoder E s))))) = DST_BUFFER_SIZE E"
proof -
  from inv_reachable [OF assms(1,2), of n w] assms(3)
  have p: "pump_inv E s" by simp
  obtain z s1 where c: "call_decoder E s = (z, s1)"
    by (cases "call_decoder E s")
  from p have b: "buf_inv (dst s)" "buf_inv (src s)"
    by (simp_all add: pump_inv_def)
  note d = call_decoder_inv [OF assms(2) b c]
  from d have "buf_inv (dst s1)" by simp
  from flush_inv [OF this, of E] d p c show ?thesis
    by (simp add: pump_inv_def)
qed

theorem decoder_sees_empty_dst_witness:
  "read_contract (cat_env 8) \<and> decoder_contract (cat_env 8) \<and>
   exec (cat_env 8) 3 (decode_start (cat_env 8) (sim_start [Read_bytes ''hello''])) =
     At_decode \<lparr>dec = (),
                dst = \<lparr>data = ''hell'', meta_wi = 0, meta_ri = 0, meta_closed = False\<rparr>,
                src = \<lparr>data = ''oell'', meta_wi = 1, meta_ri = 0, meta_closed = False\<rparr>,
                world = \<lparr>sim_input = [], sim_stdout = ''hell'', sim_stderr = []\<rparr>\<rparr> \<and>
   meta_wi (dst (flush (cat_env 8) (snd (call_decoder (cat_env 8)
     \<lparr>dec = (),
      dst = \<lparr>data = ''hell'', meta_wi = 0, meta_ri = 0, meta_closed = False\<rparr>,
      src = \<lparr>data = ''oell'', meta_wi = 1, meta_ri = 0, meta_closed = False\<rparr>,
      world = \<lparr>sim_input = [], sim_stdout = ''hell'', sim_stderr = []\<rparr>\<rparr>)))) = 0"
proof -
  have h: "exec (cat_env 8) 3 (decode_start (cat_env 8) (sim_start [Read_bytes ''hello''])) =
     At_decode \<lparr>dec = (),
                dst = \<lparr>data = ''hell'', meta_wi = 0, meta_ri = 0, meta_closed = False\<rparr>,
                src = \<lparr>data = ''oell'', meta_wi = 1, meta_ri = 0, meta_closed = False\<rparr>,
                world = \<lparr>sim_input = [], sim_stdout = ''hell'', sim_stderr = []\<rparr>\<rparr>"
    by code_simp
  note t = decoder_sees_empty_dst [OF cat_env_contracts h]
  from t [THEN conjunct2, THEN conjunct2, THEN conjunct2, THEN conjunct2, THEN conjunct1]
    cat_env_contracts [of 8] h
  show ?thesis by (intro conjI)
qed

text \<open>
  C7. With a \<open>read\<close> and a decoder that keep their promises, both buffers satisfy
  \<open>ri \<le> wi \<le> capacity\<close>, at their fixed capacities, when they are set up, at every
  \<open>read\<close> and after it, at every decoder call, after it, after the write and after the
  compaction of the source buffer. Compaction of a buffer that satisfies the invariant
  keeps it, sets the read position to 0, lowers the write position by the old read
  position, keeps the capacity, and leaves the pending bytes as they were, in order,
  now from offset 0 on.
\<close>

theorem cursor_invariant:
  assumes rc: "read_contract E" and dc: "decoder_contract E"
  shows "cursors_ok E (pump_init E d w0)
   \<and> (exec E n (decode_start E w) = At_read s \<longrightarrow>
        cursors_ok E s \<and> (\<forall>s'. refill E s = At_decode s' \<longrightarrow> cursors_ok E s'))
   \<and> (exec E n (decode_start E w) = At_decode s \<longrightarrow>
        cursors_ok E s \<and>
        cursors_ok E (snd (call_decoder E s)) \<and>
        cursors_ok E (flush E (snd (call_decoder E s))) \<and>
        cursors_ok E ((flush E (snd (call_decoder E s)))
                        \<lparr>src := wuffs_base__io_buffer__compact (src (snd (call_decoder E s)))\<rparr>))
   \<and> (buf_inv b \<longrightarrow>
        buf_inv (wuffs_base__io_buffer__compact b) \<and>
        meta_ri (wuffs_base__io_buffer__compact b) = 0 \<and>
        meta_wi (wuffs_base__io_buffer__compact b) = meta_wi b - meta_ri b \<and>
        meta_wi (wuffs_base__io_buffer__compact b) + meta_ri b = meta_wi b \<and>
        length (data (wuffs_base__io_buffer__compact b)) = length (data b) \<and>
        pending (wuffs_base__io_buffer__compact b) = pending b \<and>
        take (meta_wi (wuffs_base__io_buffer__compact b)) (data (wuffs_base__io_buffer__compact b)) = pending b)"
proof (intro conjI impI allI)
  show "cursors_ok E (pump_init E d w0)" by (rule cursors_ok_init)
next
  assume a: "exec E n (decode_start E w) = At_read s"
  from inv_reachable [OF rc dc, of n w] a have p: "pump_inv E s" by simp
  then show "cursors_ok E s" by (rule pump_inv_cursors_ok)
  fix s' assume r: "refill E s = At_decode s'"
  from inv_reachable [OF rc dc, of "Suc n" w] a r
  have "pump_inv E s'" by (simp add: exec_Suc_right del: exec.simps)
  then show "cursors_ok E s'" by (rule pump_inv_cursors_ok)
next
  assume a: "exec E n (decode_start E w) = At_decode s"
  from inv_reachable [OF rc dc, of n w] a have p: "pump_inv E s" by simp
  then show c0: "cursors_ok E s" by (rule pump_inv_cursors_ok)
  obtain z s1 where c: "call_decoder E s = (z, s1)"
    by (cases "call_decoder E s")
  from p have b: "buf_inv (dst s)" "buf_inv (src s)"
    by (simp_all add: pump_inv_def)
  note k = call_decoder_inv [OF dc b c]
  with c0 c show c1: "cursors_ok E (snd (call_decoder E s))"
    by (simp add: cursors_ok_def)
  from k have "buf_inv (dst s1)" by simp
  from flush_inv [OF this, of E] c1 c
  show c2: "cursors_ok E (flush E (snd (call_decoder E s)))"
    by (simp add: cursors_ok_def)
  from k have "buf_inv (src s1)" by simp
  from compact_facts [OF this] c2 c
  show "cursors_ok E ((flush E (snd (call_decoder E s)))
                        \<lparr>src := wuffs_base__io_buffer__compact (src (snd (call_decoder E s)))\<rparr>)"
    by (simp add: cursors_ok_def)
next
  assume b: "buf_inv b"
  note k = compact_facts [OF b]
  show "buf_inv (wuffs_base__io_buffer__compact b)" by (rule k)
  show "meta_ri (wuffs_base__io_buffer__compact b) = 0" by (rule k)
  show "meta_wi (wuffs_base__io_buffer__compact b) = meta_wi b - meta_ri b"
    by (simp add: wuffs_base__io_buffer__compact_def)
  show "meta_wi (wuffs_base__io_buffer__compact b) + meta_ri b = meta_wi b" by (rule k)
  show "length (data (wuffs_base__io_buffer__compact b)) = length (data b)" by (rule k)
  show "pending (wuffs_base__io_buffer__compact b) = pending b" by (rule k)
  from b show "take (meta_wi (wuffs_base__io_buffer__compact b)) (data (wuffs_base__io_buffer__compact b)) = pending b"
    by (auto simp: buf_inv_def wuffs_base__io_buffer__compact_def pending_def)
qed

theorem cursor_invariant_witness:
  "read_contract (cat_env 8) \<and> decoder_contract (cat_env 8)
   \<and> exec (cat_env 8) 2 (decode_start (cat_env 8) (sim_start [Read_bytes ''hello''])) =
       At_read \<lparr>dec = (),
                dst = \<lparr>data = ''hell'', meta_wi = 0, meta_ri = 0, meta_closed = False\<rparr>,
                src = \<lparr>data = ''hell'', meta_wi = 0, meta_ri = 0, meta_closed = False\<rparr>,
                world = \<lparr>sim_input = [Read_bytes ''o''], sim_stdout = ''hell'',
                         sim_stderr = []\<rparr>\<rparr>
   \<and> exec (cat_env 8) 3 (decode_start (cat_env 8) (sim_start [Read_bytes ''hello''])) =
       At_decode \<lparr>dec = (),
                dst = \<lparr>data = ''hell'', meta_wi = 0, meta_ri = 0, meta_closed = False\<rparr>,
                src = \<lparr>data = ''oell'', meta_wi = 1, meta_ri = 0, meta_closed = False\<rparr>,
                world = \<lparr>sim_input = [], sim_stdout = ''hell'', sim_stderr = []\<rparr>\<rparr>
   \<and> buf_inv \<lparr>data = ''abcd'', meta_wi = 3, meta_ri = 1, meta_closed = False\<rparr>
   \<and> wuffs_base__io_buffer__compact \<lparr>data = ''abcd'', meta_wi = 3, meta_ri = 1, meta_closed = False\<rparr> =
       \<lparr>data = ''bccd'', meta_wi = 2, meta_ri = 0, meta_closed = False\<rparr>
   \<and> pending (wuffs_base__io_buffer__compact
        \<lparr>data = ''abcd'', meta_wi = 3, meta_ri = 1, meta_closed = False\<rparr>) = ''bc''
   \<and> SRC_BUFFER_SIZE (cat_env 8) = 4
   \<and> cursors_ok (cat_env 8) (snd (call_decoder (cat_env 8)
        \<lparr>dec = (),
         dst = \<lparr>data = ''hell'', meta_wi = 0, meta_ri = 0, meta_closed = False\<rparr>,
         src = \<lparr>data = ''oell'', meta_wi = 1, meta_ri = 0, meta_closed = False\<rparr>,
         world = \<lparr>sim_input = [], sim_stdout = ''hell'', sim_stderr = []\<rparr>\<rparr>))"
proof -
  let ?E = "cat_env 8"
  let ?s2 = "\<lparr>dec = (),
                dst = \<lparr>data = ''hell'', meta_wi = 0, meta_ri = 0, meta_closed = False\<rparr>,
                src = \<lparr>data = ''hell'', meta_wi = 0, meta_ri = 0, meta_closed = False\<rparr>,
                world = \<lparr>sim_input = [Read_bytes ''o''], sim_stdout = ''hell'',
                         sim_stderr = []\<rparr>\<rparr>"
  let ?s3 = "\<lparr>dec = (),
                dst = \<lparr>data = ''hell'', meta_wi = 0, meta_ri = 0, meta_closed = False\<rparr>,
                src = \<lparr>data = ''oell'', meta_wi = 1, meta_ri = 0, meta_closed = False\<rparr>,
                world = \<lparr>sim_input = [], sim_stdout = ''hell'', sim_stderr = []\<rparr>\<rparr>"
  let ?b = "\<lparr>data = ''abcd'', meta_wi = 3, meta_ri = 1, meta_closed = False\<rparr>"
  have h2: "exec ?E 2 (decode_start ?E (sim_start [Read_bytes ''hello''])) = At_read ?s2"
    by code_simp
  have h3: "exec ?E 3 (decode_start ?E (sim_start [Read_bytes ''hello''])) = At_decode ?s3"
    by code_simp
  have hb: "buf_inv ?b"
    by code_simp
  have e: "wuffs_base__io_buffer__compact ?b = \<lparr>data = ''bccd'', meta_wi = 2, meta_ri = 0, meta_closed = False\<rparr>"
    by code_simp
  have pb: "pending ?b = ''bc''"
    by code_simp
  from cursor_invariant [OF cat_env_contracts, where n = 2 and s = ?s2
      and w = "sim_start [Read_bytes ''hello'']"] h2
  have "cursors_ok ?E ?s2" by blast
  then have c2: "SRC_BUFFER_SIZE ?E = 4" by (simp add: cursors_ok_def)
  from cursor_invariant [OF cat_env_contracts, where n = 3 and s = ?s3
      and w = "sim_start [Read_bytes ''hello'']"] h3
  have c3: "cursors_ok ?E (snd (call_decoder ?E ?s3))" by blast
  from cursor_invariant [OF cat_env_contracts, where b = ?b] hb pb
  have c4: "pending (wuffs_base__io_buffer__compact ?b) = ''bc''" by simp
  from cat_env_contracts [of 8] h2 h3 hb e c4 c2 c3 show ?thesis by (intro conjI)
qed


text \<open>
  C8. When \<open>decode\<close> returns the null pointer, \<open>main\<close> writes nothing and the exit
  status is 0. When it returns anything else, \<open>main\<close> calls \<open>fail\<close> on the text of
  that very failure: \<open>strerror\<close> of the \<open>errno\<close> of the failed \<open>read\<close>, the message
  of the status that the decoder or its version check returned, or the no-progress
  message. \<open>fail\<close> offers that text (up to 4095 bytes of it) and a newline to
  descriptor 2, and the exit status is 1. In the simulated world, where \<open>decode\<close>
  itself writes nothing to descriptor 2 and descriptor 2 accepts what it is offered: on
  success descriptor 2 has received nothing; on failure it has received the text of
  that failure and a newline, and nothing else has changed.
\<close>

theorem exit_status:
  "(decode E n w = Some (Status Null, w') \<longrightarrow> main E n w = Some (0, w'))
 \<and> (decode E n w = Some (Strerror e, w') \<longrightarrow>
      main E n w = Some (fail E w' (strerror E e)))
 \<and> (decode E n w = Some (Status (Other_status t), w') \<longrightarrow>
      main E n w = Some (fail E w' t))
 \<and> (decode E n w = Some (No_io_progress, w') \<longrightarrow>
      main E n w = Some (fail E w' ''internal error: no I/O progress possible''))
 \<and> (decode E n w = Some (Status Suspension_short_read, w') \<longrightarrow>
      main E n w = Some (fail E w' (short_read_text E)))
 \<and> (decode E n w = Some (Status Suspension_short_write, w') \<longrightarrow>
      main E n w = Some (fail E w' (short_write_text E)))
 \<and> fail E w' m =
      (1, ignore_return_value
            (sys_write E
               (ignore_return_value (sys_write E w' stderr_fd (take (strnlen m 4095) m)))
               stderr_fd [newline]))
 \<and> (decode E n w = Some (r, w') \<and> r \<noteq> Status Null \<longrightarrow>
      (\<exists>x. main E n w = Some (1, x)))
 \<and> (decode (sim_env a b k d f) j v = Some (Status Null, v') \<longrightarrow>
      main (sim_env a b k d f) j v = Some (0, v') \<and> sim_stderr v' = sim_stderr v)
 \<and> (decode (sim_env a b 4095 d f) j v = Some (Strerror e, v') \<longrightarrow>
      main (sim_env a b 4095 d f) j v =
        Some (1, v'\<lparr>sim_stderr :=
                     sim_stderr v @ take 4095 (takeWhile (\<lambda>c. c \<noteq> NUL) (sim_strerror e)) @
                     [newline]\<rparr>))
 \<and> (decode (sim_env a b 4095 d f) j v = Some (Status (Other_status t), v') \<longrightarrow>
      main (sim_env a b 4095 d f) j v =
        Some (1, v'\<lparr>sim_stderr :=
                     sim_stderr v @ take 4095 (takeWhile (\<lambda>c. c \<noteq> NUL) t) @ [newline]\<rparr>))
 \<and> (decode (sim_env a b 4095 d f) j v = Some (No_io_progress, v') \<longrightarrow>
      main (sim_env a b 4095 d f) j v =
        Some (1, v'\<lparr>sim_stderr :=
                     sim_stderr v @ ''internal error: no I/O progress possible'' @ [newline]\<rparr>))"
proof -
  have sf: "fail (sim_env a b 4095 d f) u x =
      (1, u\<lparr>sim_stderr := sim_stderr u @ take 4095 (takeWhile (\<lambda>c. c \<noteq> NUL) x) @ [newline]\<rparr>)"
    for u x
    by (simp add: fail_def Let_def take_strnlen sim_env_def ignore_return_value_def
        stderr_fd_def stdout_fd_def)
  have np: "take 4095 (takeWhile (\<lambda>c. c \<noteq> NUL) ''internal error: no I/O progress possible'') =
      ''internal error: no I/O progress possible''"
    by (simp add: NUL_def)
  have 1: "decode E n w = Some (Status Null, w') \<longrightarrow> main E n w = Some (0, w')"
    by (simp add: main_def)
  have 2: "decode E n w = Some (Strerror e, w') \<longrightarrow>
      main E n w = Some (fail E w' (strerror E e))"
    by (simp add: main_def)
  have 3: "decode E n w = Some (Status (Other_status t), w') \<longrightarrow>
      main E n w = Some (fail E w' t)"
    by (simp add: main_def)
  have 4: "decode E n w = Some (No_io_progress, w') \<longrightarrow>
      main E n w = Some (fail E w' ''internal error: no I/O progress possible'')"
    by (simp add: main_def)
  have 5: "decode E n w = Some (Status Suspension_short_read, w') \<longrightarrow>
      main E n w = Some (fail E w' (short_read_text E))"
    by (simp add: main_def)
  have 6: "decode E n w = Some (Status Suspension_short_write, w') \<longrightarrow>
      main E n w = Some (fail E w' (short_write_text E))"
    by (simp add: main_def)
  have 7: "fail E w' m =
      (1, ignore_return_value
            (sys_write E
               (ignore_return_value (sys_write E w' stderr_fd (take (strnlen m 4095) m)))
               stderr_fd [newline]))"
    by (simp add: fail_def Let_def)
  have 8: "decode E n w = Some (r, w') \<and> r \<noteq> Status Null \<longrightarrow>
      (\<exists>x. main E n w = Some (1, x))"
  proof
    assume h: "decode E n w = Some (r, w') \<and> r \<noteq> Status Null"
    then obtain x where "c_str E r = Some x"
      by (cases "(E, r)" rule: c_str.cases) auto
    with h show "\<exists>x. main E n w = Some (1, x)"
      by (simp add: main_def fail_def Let_def)
  qed
  have 9: "decode (sim_env a b k d f) j v = Some (Status Null, v') \<longrightarrow>
      main (sim_env a b k d f) j v = Some (0, v') \<and> sim_stderr v' = sim_stderr v"
    using sim_decode_stderr [of a b k d f j v "Status Null" v']
    by (simp add: main_def)
  have 10: "decode (sim_env a b 4095 d f) j v = Some (Strerror e, v') \<longrightarrow>
      main (sim_env a b 4095 d f) j v =
        Some (1, v'\<lparr>sim_stderr :=
                     sim_stderr v @ take 4095 (takeWhile (\<lambda>c. c \<noteq> NUL) (sim_strerror e)) @
                     [newline]\<rparr>)"
    using sim_decode_stderr [of a b 4095 d f j v "Strerror e" v']
    by (simp add: main_def sf) (simp add: sim_env_def)
  have 11: "decode (sim_env a b 4095 d f) j v = Some (Status (Other_status t), v') \<longrightarrow>
      main (sim_env a b 4095 d f) j v =
        Some (1, v'\<lparr>sim_stderr :=
                     sim_stderr v @ take 4095 (takeWhile (\<lambda>c. c \<noteq> NUL) t) @ [newline]\<rparr>)"
    using sim_decode_stderr [of a b 4095 d f j v "Status (Other_status t)" v']
    by (simp add: main_def sf)
  have 12: "decode (sim_env a b 4095 d f) j v = Some (No_io_progress, v') \<longrightarrow>
      main (sim_env a b 4095 d f) j v =
        Some (1, v'\<lparr>sim_stderr :=
                     sim_stderr v @ ''internal error: no I/O progress possible'' @ [newline]\<rparr>)"
    using sim_decode_stderr [of a b 4095 d f j v No_io_progress v']
    by (simp add: main_def sf np del: take_Cons_numeral takeWhile.simps)
  from 1 2 3 4 5 6 7 8 9 10 11 12 show ?thesis by (intro conjI)
qed

theorem exit_status_witness:
  "decode (cat_env 8) 4 (sim_start [Read_bytes ''hi'']) =
     Some (Status Null, \<lparr>sim_input = [], sim_stdout = ''hi'', sim_stderr = []\<rparr>)
   \<and> main (cat_env 8) 4 (sim_start [Read_bytes ''hi'']) =
     Some (0, \<lparr>sim_input = [], sim_stdout = ''hi'', sim_stderr = []\<rparr>)
   \<and> decode (script_env []) 1 (sim_start [Read_error 5]) = Some (Strerror 5, sim_start [])
   \<and> main (script_env []) 1 (sim_start [Read_error 5]) =
     Some (1, \<lparr>sim_input = [], sim_stdout = [],
               sim_stderr = ''Input/output error'' @ [newline]\<rparr>)
   \<and> decode (script_env [Other_status ''bad header'']) 2 (sim_start [Read_bytes ''x'']) =
     Some (Status (Other_status ''bad header''), sim_start [])
   \<and> main (script_env [Other_status ''bad header'']) 2 (sim_start [Read_bytes ''x'']) =
     Some (1, \<lparr>sim_input = [], sim_stdout = [], sim_stderr = ''bad header'' @ [newline]\<rparr>)
   \<and> decode (script_env [Suspension_short_read]) 2 (sim_start [Read_bytes ''abcdef'']) =
     Some (No_io_progress, sim_start [Read_bytes ''ef''])
   \<and> main (script_env [Suspension_short_read]) 2 (sim_start [Read_bytes ''abcdef'']) =
     Some (1, \<lparr>sim_input = [Read_bytes ''ef''], sim_stdout = [],
               sim_stderr = ''internal error: no I/O progress possible'' @ [newline]\<rparr>)"
proof -
  let ?w1 = "\<lparr>sim_input = [], sim_stdout = ''hi'', sim_stderr = []\<rparr>"
  have h1: "decode (cat_env 8) 4 (sim_start [Read_bytes ''hi'']) = Some (Status Null, ?w1)"
    by code_simp
  note c1 = exit_status [where E = "cat_env 8" and n = 4
      and w = "sim_start [Read_bytes ''hi'']" and w' = ?w1, THEN conjunct1, THEN mp, OF h1]
  let ?E2 = "script_env ([] :: status list)"
  have h2: "decode ?E2 1 (sim_start [Read_error 5]) = Some (Strerror 5, sim_start [])"
    by code_simp
  have f2: "fail ?E2 (sim_start []) (strerror ?E2 5) =
      (1, \<lparr>sim_input = [], sim_stdout = [], sim_stderr = ''Input/output error'' @ [newline]\<rparr>)"
    by code_simp
  note c2 = exit_status [where E = ?E2 and n = 1 and w = "sim_start [Read_error 5]"
      and w' = "sim_start []" and e = 5,
      THEN conjunct2, THEN conjunct1, THEN mp, OF h2, unfolded f2]
  let ?E3 = "script_env [Other_status ''bad header'']"
  have h3: "decode ?E3 2 (sim_start [Read_bytes ''x'']) =
      Some (Status (Other_status ''bad header''), sim_start [])"
    by code_simp
  have f3: "fail ?E3 (sim_start []) ''bad header'' =
      (1, \<lparr>sim_input = [], sim_stdout = [], sim_stderr = ''bad header'' @ [newline]\<rparr>)"
    by code_simp
  note c3 = exit_status [where E = ?E3 and n = 2 and w = "sim_start [Read_bytes ''x'']"
      and w' = "sim_start []" and t = "''bad header''",
      THEN conjunct2, THEN conjunct2, THEN conjunct1, THEN mp, OF h3, unfolded f3]
  let ?E4 = "script_env [Suspension_short_read]"
  have h4: "decode ?E4 2 (sim_start [Read_bytes ''abcdef'']) =
      Some (No_io_progress, sim_start [Read_bytes ''ef''])"
    by code_simp
  have f4: "fail ?E4 (sim_start [Read_bytes ''ef''])
        ''internal error: no I/O progress possible'' =
      (1, \<lparr>sim_input = [Read_bytes ''ef''], sim_stdout = [],
           sim_stderr = ''internal error: no I/O progress possible'' @ [newline]\<rparr>)"
    by code_simp
  note c4 = exit_status [where E = ?E4 and n = 2 and w = "sim_start [Read_bytes ''abcdef'']"
      and w' = "sim_start [Read_bytes ''ef'']",
      THEN conjunct2, THEN conjunct2, THEN conjunct2, THEN conjunct1, THEN mp, OF h4,
      unfolded f4]
  from h1 c1 h2 c2 h3 c3 h4 c4 show ?thesis by (intro conjI)
qed

text \<open>
  C9. With a \<open>read\<close> and a decoder that keep their promises, at every \<open>read\<close> the
  write position of the source buffer is within its capacity, and the length offered
  to \<open>read\<close> is the capacity less the write position, with no wrap-around. The bytes
  that \<open>read\<close> delivers are stored from the write position on, the write position
  stays within the capacity, the array keeps its length, and the bytes before and
  behind the stored ones are untouched.
\<close>

theorem read_within_bounds:
  assumes rc: "read_contract E" and dc: "decoder_contract E"
    and a: "exec E n (decode_start E w) = At_read s"
  shows "length (data (src s)) = SRC_BUFFER_SIZE E \<and>
         meta_wi (src s) \<le> SRC_BUFFER_SIZE E \<and>
         size_t_sub (length (data (src s))) (meta_wi (src s)) =
           SRC_BUFFER_SIZE E - meta_wi (src s) \<and>
         (\<forall>bs w'. sys_read E (world s) stdin_fd (SRC_BUFFER_SIZE E - meta_wi (src s)) =
                    (Read_bytes bs, w') \<longrightarrow>
            (\<exists>s'. refill E s = At_decode s' \<and>
                  meta_wi (src s') = meta_wi (src s) + length bs \<and>
                  meta_wi (src s') \<le> SRC_BUFFER_SIZE E \<and>
                  length (data (src s')) = SRC_BUFFER_SIZE E \<and>
                  take (meta_wi (src s)) (data (src s')) = take (meta_wi (src s)) (data (src s)) \<and>
                  take (length bs) (drop (meta_wi (src s)) (data (src s'))) = bs \<and>
                  drop (meta_wi (src s')) (data (src s')) =
                    drop (meta_wi (src s')) (data (src s))))"
proof -
  from inv_reachable [OF rc dc, of n w] a have p: "pump_inv E s" by simp
  then have len: "length (data (src s)) = SRC_BUFFER_SIZE E"
    and le: "meta_wi (src s) \<le> SRC_BUFFER_SIZE E"
    by (simp_all add: pump_inv_def buf_inv_def)
  then have cnt: "size_t_sub (length (data (src s))) (meta_wi (src s)) =
      SRC_BUFFER_SIZE E - meta_wi (src s)"
    by (simp add: size_t_sub_def)
  have "\<exists>s'. refill E s = At_decode s' \<and>
                  meta_wi (src s') = meta_wi (src s) + length bs \<and>
                  meta_wi (src s') \<le> SRC_BUFFER_SIZE E \<and>
                  length (data (src s')) = SRC_BUFFER_SIZE E \<and>
                  take (meta_wi (src s)) (data (src s')) = take (meta_wi (src s)) (data (src s)) \<and>
                  take (length bs) (drop (meta_wi (src s)) (data (src s'))) = bs \<and>
                  drop (meta_wi (src s')) (data (src s')) =
                    drop (meta_wi (src s')) (data (src s))"
    if rd: "sys_read E (world s) stdin_fd (SRC_BUFFER_SIZE E - meta_wi (src s)) =
              (Read_bytes bs, w')" for bs w'
  proof -
    from read_contractD [OF rc rd] le
    have n: "meta_wi (src s) + length bs \<le> SRC_BUFFER_SIZE E" by simp
    with rd cnt len show ?thesis
      by (simp add: refill_def Let_def store_def)
  qed
  with len le cnt show ?thesis by blast
qed

theorem read_within_bounds_witness:
  "read_contract (script_env [Suspension_short_read])
   \<and> decoder_contract (script_env [Suspension_short_read])
   \<and> exec (script_env [Suspension_short_read]) 2
         (decode_start (script_env [Suspension_short_read])
            (sim_start [Read_bytes ''ab'', Read_bytes ''cdefg''])) =
       At_read \<lparr>dec = [], dst = io_buffer_init 4,
                src = \<lparr>data = ''ab'' @ [NUL, NUL], meta_wi = 2, meta_ri = 0,
                        meta_closed = False\<rparr>,
                world = sim_start [Read_bytes ''cdefg'']\<rparr>
   \<and> size_t_sub 4 2 = 4 - 2
   \<and> (\<exists>s'. refill (script_env [Suspension_short_read])
               \<lparr>dec = [], dst = io_buffer_init 4,
                src = \<lparr>data = ''ab'' @ [NUL, NUL], meta_wi = 2, meta_ri = 0,
                        meta_closed = False\<rparr>,
                world = sim_start [Read_bytes ''cdefg'']\<rparr> = At_decode s' \<and>
             meta_wi (src s') = 2 + 2 \<and> length (data (src s')) = 4)"
proof -
  let ?E = "script_env [Suspension_short_read]"
  let ?s = "\<lparr>dec = [] :: status list, dst = io_buffer_init 4,
             src = \<lparr>data = ''ab'' @ [NUL, NUL], meta_wi = 2, meta_ri = 0,
                     meta_closed = False\<rparr>,
             world = sim_start [Read_bytes ''cdefg'']\<rparr>"
  have h: "exec ?E 2 (decode_start ?E (sim_start [Read_bytes ''ab'', Read_bytes ''cdefg''])) =
      At_read ?s"
    by code_simp
  note t = read_within_bounds [OF script_env_contracts h]
  have v: "SRC_BUFFER_SIZE ?E = 4" "meta_wi (src ?s) = 2" "length (data (src ?s)) = 4"
    "length ''cd'' = 2"
    by code_simp+
  have rd: "sys_read ?E (world ?s) stdin_fd (SRC_BUFFER_SIZE ?E - meta_wi (src ?s)) =
      (Read_bytes ''cd'', sim_start [Read_bytes ''efg''])"
    by code_simp
  note c1 = t [THEN conjunct2, THEN conjunct2, THEN conjunct1, unfolded v]
  from t [THEN conjunct2, THEN conjunct2, THEN conjunct2, THEN spec, THEN spec, THEN mp, OF rd]
  have "\<exists>s'. refill ?E ?s = At_decode s' \<and>
      meta_wi (src s') = meta_wi (src ?s) + length ''cd'' \<and>
      length (data (src s')) = SRC_BUFFER_SIZE ?E"
    by (elim exE conjE)
      (rule exI, rule conjI, assumption, rule conjI, assumption, assumption)
  note c2 = this [unfolded v]
  from script_env_contracts [of "[Suspension_short_read]"] h c1 c2
  show ?thesis by (intro conjI)
qed

text \<open>
  C10. \<open>fail\<close> writes to descriptor 2 the characters of the message up to its
  terminating NUL, at most 4095 of them, and then one newline; it returns 1. A
  descriptor that accepts what it is offered has received exactly these.
\<close>

theorem fail_writes_truncated_line:
  "fail E w msg =
     (1, ignore_return_value
           (sys_write E
              (ignore_return_value
                 (sys_write E w stderr_fd (take 4095 (takeWhile (\<lambda>c. c \<noteq> NUL) msg))))
              stderr_fd [newline]))
   \<and> length (take 4095 (takeWhile (\<lambda>c. c \<noteq> NUL) msg)) \<le> 4095
   \<and> sim_stderr (snd (fail (sim_env a b 4095 d f) v msg)) =
       sim_stderr v @ take 4095 (takeWhile (\<lambda>c. c \<noteq> NUL) msg) @ [newline]"
  by (simp add: fail_def Let_def take_strnlen sim_env_def ignore_return_value_def
      stderr_fd_def stdout_fd_def)

theorem fail_writes_truncated_line_witness:
  "sim_stderr (snd (fail (sim_env 4 4 4095 () copy_decode) (sim_start [])
       (replicate 5000 CHR ''x''))) = replicate 4095 CHR ''x'' @ [newline]"
proof -
  note t = fail_writes_truncated_line [of "sim_env 4 4 4095 () copy_decode" "sim_start []"
      "replicate 5000 CHR ''x''" 4 4 "()" copy_decode "sim_start []",
      THEN conjunct2, THEN conjunct2]
  have tw: "takeWhile (\<lambda>c. c \<noteq> NUL) (replicate 5000 CHR ''x'') = replicate 5000 CHR ''x''"
    by (simp add: NUL_def)
  have tk: "take 4095 (replicate 5000 CHR ''x'') = replicate 4095 CHR ''x''"
    by simp
  have s0: "sim_stderr (sim_start []) = []"
    by (simp add: sim_start_def)
  from t show ?thesis
    unfolding tw tk s0 by simp
qed

end
